theory Spec2Isabelle
  imports
    Main
    "HOL-Library.Finite_Map"
    "HOL-Library.Word"
    "HOL-Library.Char_ord"
    "HOL-Library.List_Lexorder"
begin

unbundle bit_operations_syntax

section \<open>Routing table (package loadbalancer, router.go)\<close>

text \<open>
  A Go \<^verbatim>\<open>map[K]*V\<close> is a finite map with unique keys: \<open>('k, 'v) fmap\<close>.
  The \<^verbatim>\<open>*Target\<close> pointers stored in the two maps are never written through after
  \<^verbatim>\<open>AddRoute\<close> has built the value, so the pointee is stored by value.
  The read/write mutex serialises the calls; each function below is one critical section.
  A Go \<^verbatim>\<open>int\<close> port is only ever compared with \<open>0\<close>, so it is an \<open>int\<close>.
\<close>

record TLSConfig =
  CertFile :: string
  KeyFile :: string

record Config =
  HTTPPort :: int
  TCPPort :: int
  TLSConfig :: "TLSConfig option"

record Target =
  ID :: string
  IP :: string
  Port :: int

record Router =
  hostMap :: "(string, Target) fmap"
  portMap :: "(int, Target) fmap"
  config :: Config

text \<open>
  The errors of the router are the four \<^verbatim>\<open>fmt.Errorf\<close> messages of the source:
  "hostname %s is already in use" and "port %d is already in use" (the conflicts),
  "no tunnel found for hostname: %s" and "no tunnel found for port: %d" (the misses).
\<close>

datatype router_error =
    HostnameInUse string
  | PortInUse int
  | NoTunnelForHostname string
  | NoTunnelForPort int

definition NewRouter :: "Config \<Rightarrow> Router" where
  "NewRouter c = \<lparr>hostMap = fmempty, portMap = fmempty, config = c\<rparr>"

text \<open>
  \<^verbatim>\<open>AddRoute\<close> returns the error (\<open>None\<close> for \<^verbatim>\<open>nil\<close>) and the router as the call leaves
  it. The order of the source is kept: the hostname is checked, then stored, and only
  then is the port checked.
\<close>

definition AddRoute :: "string \<Rightarrow> string \<Rightarrow> string \<Rightarrow> int \<Rightarrow> Router \<Rightarrow> router_error option \<times> Router" where
  "AddRoute tunnelID hostname ip port r =
     (let target = \<lparr>ID = tunnelID, IP = ip, Port = port\<rparr> in
      if fmlookup (hostMap r) hostname \<noteq> None then (Some (HostnameInUse hostname), r)
      else
        let r1 = r\<lparr>hostMap := fmupd hostname target (hostMap r)\<rparr> in
        if port > 0 then
          (if fmlookup (portMap r1) port \<noteq> None then (Some (PortInUse port), r1)
           else (None, r1\<lparr>portMap := fmupd port target (portMap r1)\<rparr>))
        else (None, r1))"

text \<open>
  The two \<^verbatim>\<open>range\<close> loops of \<^verbatim>\<open>RemoveRoute\<close> visit the entries of a map and delete the
  current entry when its target carries the identifier. Go leaves the visiting order
  open; the model visits the entries by ascending key, and \<open>delete_matching_any_order\<close>
  below shows that the order does not matter.
\<close>

fun delete_matching :: "string \<Rightarrow> ('k \<times> Target) list \<Rightarrow> ('k, Target) fmap \<Rightarrow> ('k, Target) fmap" where
  "delete_matching tunnelID [] m = m"
| "delete_matching tunnelID ((k, target) # es) m =
     (if ID target = tunnelID then delete_matching tunnelID es (fmdrop k m)
      else delete_matching tunnelID es m)"

definition RemoveRoute :: "string \<Rightarrow> Router \<Rightarrow> Router" where
  "RemoveRoute tunnelID r =
     (let r1 = r\<lparr>hostMap := delete_matching tunnelID (sorted_list_of_fmap (hostMap r)) (hostMap r)\<rparr>
      in r1\<lparr>portMap := delete_matching tunnelID (sorted_list_of_fmap (portMap r1)) (portMap r1)\<rparr>)"

definition GetTunnelByHost :: "Router \<Rightarrow> string \<Rightarrow> router_error + Target" where
  "GetTunnelByHost r hostname =
     (case fmlookup (hostMap r) hostname of
        None \<Rightarrow> Inl (NoTunnelForHostname hostname)
      | Some target \<Rightarrow> Inr target)"

definition GetTunnelByPort :: "Router \<Rightarrow> int \<Rightarrow> router_error + Target" where
  "GetTunnelByPort r port =
     (case fmlookup (portMap r) port of
        None \<Rightarrow> Inl (NoTunnelForPort port)
      | Some target \<Rightarrow> Inr target)"

definition ListRoutes :: "Router \<Rightarrow> (string, Target) fmap" where
  "ListRoutes r = hostMap r"

definition ports_positive :: "Router \<Rightarrow> bool" where
  \<comment> \<open>every key of the port map is a positive port\<close>
  "ports_positive r = fmpred (\<lambda>p t. 0 < p) (portMap r)"

definition example_config :: Config where
  "example_config = \<lparr>HTTPPort = 8080, TCPPort = 8081, TLSConfig = None\<rparr>"

definition router_t1 :: Router where
  \<comment> \<open>the table after the route of tunnel t1 has been added to an empty table\<close>
  "router_t1 = snd (AddRoute ''t1'' ''a.example.com'' ''10.0.0.1'' 8080 (NewRouter example_config))"


section \<open>Peer address allocator (package tunnel, wireguard.go)\<close>

text \<open>
  Go's \<^verbatim>\<open>net.IP\<close> and \<^verbatim>\<open>net.IPMask\<close> are byte slices; a \<^verbatim>\<open>nil\<close> slice is the empty
  list. \<open>To4\<close>, \<open>networkNumberAndMask\<close> and \<open>Contains\<close> follow the Go standard
  library (package net), which the allocator calls.
\<close>

type_synonym net_IP = "8 word list"

record IPNet =
  NetIP :: net_IP
  Mask :: net_IP

definition To4 :: "net_IP \<Rightarrow> net_IP option" where
  "To4 ip =
     (if length ip = 4 then Some ip
      else if length ip = 16 \<and> list_all (\<lambda>b. b = 0) (take 10 ip)
              \<and> ip ! 10 = 0xff \<and> ip ! 11 = 0xff
      then Some (drop 12 ip)
      else None)"

definition networkNumberAndMask :: "IPNet \<Rightarrow> net_IP \<times> net_IP" where
  "networkNumberAndMask n =
     (let ip = (case To4 (NetIP n) of Some x \<Rightarrow> x | None \<Rightarrow> NetIP n) in
      if To4 (NetIP n) = None \<and> length ip \<noteq> 16 then ([], [])
      else
        let m = Mask n in
        if length m = 4 then (if length ip \<noteq> 4 then ([], []) else (ip, m))
        else if length m = 16 then (if length ip = 4 then (ip, drop 12 m) else (ip, m))
        else ([], []))"

definition Contains :: "IPNet \<Rightarrow> net_IP \<Rightarrow> bool" where
  "Contains n ip0 =
     (let (nn, m) = networkNumberAndMask n;
          ip = (case To4 ip0 of Some x \<Rightarrow> x | None \<Rightarrow> ip0);
          l = length ip
      in if l \<noteq> length nn then False
         else list_all (\<lambda>i. (nn ! i) AND (m ! i) = (ip ! i) AND (m ! i)) [0..<l])"

record WireGuardManager =
  interfaceName :: string
  basePort :: int
  ipNet :: IPNet
  nextIP :: net_IP

text \<open>
  \<^verbatim>\<open>net.ParseCIDR("10.10.0.0/16")\<close> yields the four-byte network \<open>10.10.0.0\<close> with
  the four-byte mask \<open>255.255.0.0\<close>; \<^verbatim>\<open>net.ParseIP("10.10.0.1")\<close> yields the
  sixteen-byte (IPv4-in-IPv6) form of the address.
\<close>

definition v4InV6 :: "8 word \<Rightarrow> 8 word \<Rightarrow> 8 word \<Rightarrow> 8 word \<Rightarrow> net_IP" where
  "v4InV6 a b c d = [0, 0, 0, 0, 0, 0, 0, 0, 0, 0, 0xff, 0xff, a, b, c, d]"

definition NewWireGuardManager :: WireGuardManager where
  "NewWireGuardManager =
     \<lparr>interfaceName = ''wg0'',
      basePort = 51820,
      ipNet = \<lparr>NetIP = [10, 10, 0, 0], Mask = [0xff, 0xff, 0, 0]\<rparr>,
      nextIP = v4InV6 10 10 0 1\<rparr>"

text \<open>
  The increment loop of \<^verbatim>\<open>allocateIP\<close>:
  \<^verbatim>\<open>for i := len(ip) - 1; i >= 0; i-- { ip[i]++; if ip[i] != 0 { break } }\<close>.
  The first argument of \<open>increment_from\<close> is \<open>i + 1\<close>; the byte addition wraps.
\<close>

fun increment_from :: "nat \<Rightarrow> net_IP \<Rightarrow> net_IP" where
  "increment_from 0 ip = ip"
| "increment_from (Suc i) ip =
     (let ip' = ip[i := ip ! i + 1] in
      if ip' ! i \<noteq> 0 then ip' else increment_from i ip')"

definition allocateIP :: "WireGuardManager \<Rightarrow> net_IP option \<times> WireGuardManager" where
  "allocateIP w =
     (let ip = increment_from (length (nextIP w)) (nextIP w) in
      if \<not> Contains (ipNet w) ip then (None, w)
      else (Some ip, w\<lparr>nextIP := ip\<rparr>))"

text \<open>
  The external \<^verbatim>\<open>wg\<close> command is the environment of the allocator: \<open>wg_tool\<close> gives,
  for each of the four invocations, what the command answers (\<open>None\<close> or \<open>False\<close>
  when it fails).
\<close>

record wg_tool =
  wg_genkey :: "string option"
  wg_pubkey :: "string \<Rightarrow> string option"
  wg_set_peer :: "string \<Rightarrow> string \<Rightarrow> net_IP \<Rightarrow> bool"
  wg_remove_peer :: "string \<Rightarrow> string \<Rightarrow> bool"

datatype wg_error =
    GeneratePrivateKeyFailed
  | GeneratePublicKeyFailed
  | AllocateIPFailed
  | AddPeerFailed
  | RemovePeerFailed

text \<open>
  \<^verbatim>\<open>WireGuardConfig\<close>: the source stores the two addresses as rendered by
  \<^verbatim>\<open>IP.String()\<close>; the model keeps the bytes that are rendered. The field \<^verbatim>\<open>Port\<close>
  is \<open>WgPort\<close> here, since \<open>Port\<close> is the field of \<open>Target\<close>.
\<close>

record WireGuardConfig =
  PublicKey :: string
  PrivateKey :: string
  ServerIP :: net_IP
  ClientIP :: net_IP
  WgPort :: int

definition generatePrivateKey :: "wg_tool \<Rightarrow> wg_error + string" where
  "generatePrivateKey tool =
     (case wg_genkey tool of None \<Rightarrow> Inl GeneratePrivateKeyFailed | Some out \<Rightarrow> Inr out)"

definition generatePublicKey :: "wg_tool \<Rightarrow> string \<Rightarrow> wg_error + string" where
  "generatePublicKey tool privateKey =
     (case wg_pubkey tool privateKey of None \<Rightarrow> Inl GeneratePublicKeyFailed | Some out \<Rightarrow> Inr out)"

definition addPeer :: "wg_tool \<Rightarrow> WireGuardManager \<Rightarrow> string \<Rightarrow> net_IP \<Rightarrow> wg_error option" where
  "addPeer tool w publicKey peerIP =
     (if wg_set_peer tool (interfaceName w) publicKey peerIP then None else Some AddPeerFailed)"

definition SetupPeer :: "wg_tool \<Rightarrow> string \<Rightarrow> string \<Rightarrow> WireGuardManager
    \<Rightarrow> (wg_error + WireGuardConfig) \<times> WireGuardManager" where
  "SetupPeer tool peer_id publicKey w =
     (case generatePrivateKey tool of
        Inl err \<Rightarrow> (Inl err, w)
      | Inr privKey \<Rightarrow>
          (case generatePublicKey tool privKey of
             Inl err \<Rightarrow> (Inl err, w)
           | Inr pubKey \<Rightarrow>
               (case allocateIP w of
                  (None, w1) \<Rightarrow> (Inl AllocateIPFailed, w1)
                | (Some peerIP, w1) \<Rightarrow>
                    (let cfg = \<lparr>PublicKey = pubKey, PrivateKey = privKey,
                                ServerIP = nextIP w1, ClientIP = peerIP,
                                WgPort = basePort w1\<rparr>
                     in case addPeer tool w1 publicKey peerIP of
                          Some err \<Rightarrow> (Inl err, w1)
                        | None \<Rightarrow> (Inr cfg, w1)))))"

definition RemovePeer :: "wg_tool \<Rightarrow> string \<Rightarrow> WireGuardManager \<Rightarrow> wg_error option" where
  "RemovePeer tool peer_id w =
     (if wg_remove_peer tool (interfaceName w) peer_id then None else Some RemovePeerFailed)"

text \<open>
  The addresses handed out by \<open>n\<close> consecutive calls of \<^verbatim>\<open>allocateIP\<close>, in order;
  a call that returns \<^verbatim>\<open>nil\<close> contributes nothing.
\<close>

fun issued :: "nat \<Rightarrow> WireGuardManager \<Rightarrow> net_IP list" where
  "issued 0 w = []"
| "issued (Suc n) w =
     (case allocateIP w of
        (None, w') \<Rightarrow> issued n w'
      | (Some ip, w') \<Rightarrow> ip # issued n w')"

text \<open>The number a byte sequence denotes in network order (most significant byte first).\<close>

definition ip_value :: "net_IP \<Rightarrow> nat" where
  "ip_value ip = foldl (\<lambda>acc b. 256 * acc + unat b) 0 ip"


section \<open>Tunnel registry (package tunnel, manager.go)\<close>

text \<open>
  A \<^verbatim>\<open>time.Time\<close> is a number of clock ticks. The two readings of \<^verbatim>\<open>time.Now()\<close> in
  \<^verbatim>\<open>CreateTunnel\<close> and the reading in \<^verbatim>\<open>UpdateLastActive\<close> are arguments of the
  model, as is the behaviour of the \<^verbatim>\<open>wg\<close> command. The field \<^verbatim>\<open>ID\<close> is \<open>TunnelID\<close>
  and the field \<^verbatim>\<open>WireGuardConfig\<close> is \<open>WireGuardCfg\<close> here (\<open>None\<close> for \<^verbatim>\<open>nil\<close>).
  The manager's mutex makes each function one critical section; log output is left out.
\<close>

type_synonym time = int

record TunnelInfo =
  TunnelID :: string
  Hostname :: string
  TargetPort :: int
  PublicEndpoint :: string
  Created :: time
  LastActive :: time
  WireGuardCfg :: "WireGuardConfig option"
  Metadata :: "(string, string) fmap"

record Manager =
  tunnels :: "(string, TunnelInfo) fmap"
  maxTunnels :: int
  wg :: WireGuardManager

text \<open>
  The errors of the manager, after the messages of the source:
  "maximum number of tunnels (%d) reached", "tunnel with ID %s already exists",
  "failed to setup WireGuard peer: %v", "tunnel with ID %s not found",
  "no tunnel found for hostname %s".
\<close>

datatype tunnel_error =
    MaxTunnelsReached int
  | TunnelExists string
  | SetupPeerFailed wg_error
  | TunnelNotFound string
  | HostnameNotFound string

definition NewManager :: "int \<Rightarrow> Manager" where
  "NewManager n = \<lparr>tunnels = fmempty, maxTunnels = n, wg = NewWireGuardManager\<rparr>"

definition len_tunnels :: "Manager \<Rightarrow> int" where
  \<comment> \<open>\<^verbatim>\<open>len(m.tunnels)\<close>\<close>
  "len_tunnels m = int (fcard (fmdom (tunnels m)))"

definition CreateTunnel :: "wg_tool \<Rightarrow> time \<Rightarrow> time \<Rightarrow> string \<Rightarrow> string \<Rightarrow> int \<Rightarrow> string
    \<Rightarrow> (string, string) fmap \<Rightarrow> Manager \<Rightarrow> (tunnel_error + TunnelInfo) \<times> Manager" where
  "CreateTunnel tool now1 now2 tunnel_id hostname targetPort wgPubKey metadata m =
     (if len_tunnels m \<ge> maxTunnels m then (Inl (MaxTunnelsReached (maxTunnels m)), m)
      else if fmlookup (tunnels m) tunnel_id \<noteq> None then (Inl (TunnelExists tunnel_id), m)
      else
        let tunnel = \<lparr>TunnelID = tunnel_id, Hostname = hostname, TargetPort = targetPort,
                       PublicEndpoint = [], Created = now1, LastActive = now2,
                       WireGuardCfg = None, Metadata = metadata\<rparr>
        in if wgPubKey \<noteq> [] then
             (case SetupPeer tool tunnel_id wgPubKey (wg m) of
                (Inl err, w1) \<Rightarrow> (Inl (SetupPeerFailed err), m\<lparr>wg := w1\<rparr>)
              | (Inr wgConfig, w1) \<Rightarrow>
                  (let tunnel1 = tunnel\<lparr>WireGuardCfg := Some wgConfig\<rparr>
                   in (Inr tunnel1, m\<lparr>wg := w1, tunnels := fmupd tunnel_id tunnel1 (tunnels m)\<rparr>)))
           else (Inr tunnel, m\<lparr>tunnels := fmupd tunnel_id tunnel (tunnels m)\<rparr>))"

text \<open>
  \<^verbatim>\<open>RemoveTunnel\<close> calls \<^verbatim>\<open>RemovePeer\<close> for a WireGuard tunnel and only logs its error;
  \<^verbatim>\<open>RemovePeer\<close> changes nothing in the allocator.
\<close>

definition RemoveTunnel :: "wg_tool \<Rightarrow> string \<Rightarrow> Manager \<Rightarrow> tunnel_error option \<times> Manager" where
  "RemoveTunnel tool tunnel_id m =
     (case fmlookup (tunnels m) tunnel_id of
        None \<Rightarrow> (Some (TunnelNotFound tunnel_id), m)
      | Some tunnel \<Rightarrow>
          (let logged = (if WireGuardCfg tunnel \<noteq> None then RemovePeer tool tunnel_id (wg m) else None)
           in (None, m\<lparr>tunnels := fmdrop tunnel_id (tunnels m)\<rparr>)))"

definition GetTunnel :: "Manager \<Rightarrow> string \<Rightarrow> tunnel_error + TunnelInfo" where
  "GetTunnel m tunnel_id =
     (case fmlookup (tunnels m) tunnel_id of
        None \<Rightarrow> Inl (TunnelNotFound tunnel_id)
      | Some tunnel \<Rightarrow> Inr tunnel)"

definition UpdateLastActive :: "time \<Rightarrow> string \<Rightarrow> Manager \<Rightarrow> Manager" where
  "UpdateLastActive now tunnel_id m =
     (case fmlookup (tunnels m) tunnel_id of
        None \<Rightarrow> m
      | Some tunnel \<Rightarrow> m\<lparr>tunnels := fmupd tunnel_id (tunnel\<lparr>LastActive := now\<rparr>) (tunnels m)\<rparr>)"

text \<open>A call of the management interface, and a sequence of calls run on a manager.\<close>

datatype manager_call =
    CallCreate wg_tool time time string string int string "(string, string) fmap"
  | CallRemove wg_tool string
  | CallUpdateLastActive time string

fun run_call :: "manager_call \<Rightarrow> Manager \<Rightarrow> Manager" where
  "run_call (CallCreate tool now1 now2 tunnel_id hostname targetPort wgPubKey metadata) m =
     snd (CreateTunnel tool now1 now2 tunnel_id hostname targetPort wgPubKey metadata m)"
| "run_call (CallRemove tool tunnel_id) m = snd (RemoveTunnel tool tunnel_id m)"
| "run_call (CallUpdateLastActive now tunnel_id) m = UpdateLastActive now tunnel_id m"

definition run_calls :: "manager_call list \<Rightarrow> Manager \<Rightarrow> Manager" where
  "run_calls cs m = fold run_call cs m"

text \<open>Two behaviours of the \<^verbatim>\<open>wg\<close> command: every invocation succeeds; only the
  registration of the peer fails.\<close>

definition wg_ok :: wg_tool where
  "wg_ok = \<lparr>wg_genkey = Some ''priv'', wg_pubkey = (\<lambda>k. Some ''pub''),
            wg_set_peer = (\<lambda>i k a. True), wg_remove_peer = (\<lambda>i p. True)\<rparr>"

definition wg_set_fails :: wg_tool where
  "wg_set_fails = wg_ok\<lparr>wg_set_peer := (\<lambda>i k a. False)\<rparr>"

definition wg_genkey_fails :: wg_tool where
  "wg_genkey_fails = wg_ok\<lparr>wg_genkey := None\<rparr>"


section \<open>Traffic dispatcher, HTTP path (package loadbalancer, loadbalancer.go)\<close>

text \<open>
  \<^verbatim>\<open>handleHTTPRequest\<close> acts on the outside world only: it writes to the log, writes an
  error response, or hands the request to a reverse proxy that connects to the target.
  The model returns these actions in the order the handler performs them.
  \<^verbatim>\<open>http.StatusServiceUnavailable\<close> is 503.
\<close>

record HTTPRequest =
  Host :: string
  Method :: string
  Path :: string

datatype lb_action =
    LogNoTunnel router_error string
  | HTTPError string nat
  | ProxyServe string int string
  | LogHandled string string string string

definition StatusServiceUnavailable :: nat where
  "StatusServiceUnavailable = 503"

definition handleHTTPRequest :: "Router \<Rightarrow> HTTPRequest \<Rightarrow> lb_action list" where
  "handleHTTPRequest router req =
     (let host = Host req in
      case GetTunnelByHost router host of
        Inl err \<Rightarrow> [LogNoTunnel err host, HTTPError ''Service Unavailable'' StatusServiceUnavailable]
      | Inr target \<Rightarrow>
          [ProxyServe (IP target) (Port target) host,
           LogHandled host (ID target) (Method req) (Path req)])"

fun connects_to_backend :: "lb_action \<Rightarrow> bool" where
  "connects_to_backend (ProxyServe ip port host) = True"
| "connects_to_backend _ = False"


section \<open>Example states\<close>

definition manager_a :: Manager where
  \<comment> \<open>a registry with room for one tunnel, holding tunnel a\<close>
  "manager_a = snd (CreateTunnel wg_ok 1 1 ''a'' ''a.example.com'' 8080 [] fmempty (NewManager 1))"

definition wg_carry :: WireGuardManager where
  \<comment> \<open>the allocator when the last byte of its cursor is 255\<close>
  "wg_carry = NewWireGuardManager\<lparr>nextIP := v4InV6 10 10 0 255\<rparr>"

definition wg_near_end :: WireGuardManager where
  \<comment> \<open>the allocator when its cursor is two addresses before the end of the block\<close>
  "wg_near_end = NewWireGuardManager\<lparr>nextIP := v4InV6 10 10 255 254\<rparr>"


section \<open>Properties of the routing table\<close>

subsection \<open>The loops of RemoveRoute\<close>

lemma set_sorted_list_of_fmap:
  "set (sorted_list_of_fmap m) = {(k, v). fmlookup m k = Some v}"
  unfolding sorted_list_of_fmap_def
  by (auto simp: fmlookup_dom_iff image_iff intro: fmdomI)

lemma lookup_delete_matching:
  "fmlookup (delete_matching tid es m) k =
     (if \<exists>t. (k, t) \<in> set es \<and> ID t = tid then None else fmlookup m k)"
  by (induction es arbitrary: m) auto

text \<open>
  Whatever the order in which the entries of the map are visited, the loop leaves exactly
  the entries whose target does not carry the identifier.
\<close>

lemma delete_matching_any_order:
  assumes "set es = {(k, v). fmlookup m k = Some v}"
  shows "delete_matching tid es m = fmfilter (\<lambda>k. \<forall>t. fmlookup m k = Some t \<longrightarrow> ID t \<noteq> tid) m"
  by (rule fmap_ext) (use assms in \<open>auto simp: lookup_delete_matching\<close>)

lemma lookup_hostMap_RemoveRoute:
  "fmlookup (hostMap (RemoveRoute tid r)) h =
     (case fmlookup (hostMap r) h of None \<Rightarrow> None | Some t \<Rightarrow> if ID t = tid then None else Some t)"
  by (auto simp: RemoveRoute_def Let_def lookup_delete_matching set_sorted_list_of_fmap
           split: option.splits)

lemma lookup_portMap_RemoveRoute:
  "fmlookup (portMap (RemoveRoute tid r)) p =
     (case fmlookup (portMap r) p of None \<Rightarrow> None | Some t \<Rightarrow> if ID t = tid then None else Some t)"
  by (auto simp: RemoveRoute_def Let_def lookup_delete_matching set_sorted_list_of_fmap
           split: option.splits)

lemma config_RemoveRoute: "config (RemoveRoute tid r) = config r"
  by (simp add: RemoveRoute_def Let_def)

lemma RemoveRoute_noop:
  assumes "\<And>h t. fmlookup (hostMap r) h = Some t \<Longrightarrow> ID t \<noteq> tid"
      and "\<And>p t. fmlookup (portMap r) p = Some t \<Longrightarrow> ID t \<noteq> tid"
  shows "RemoveRoute tid r = r"
proof -
  have "hostMap (RemoveRoute tid r) = hostMap r"
    by (rule fmap_ext) (use assms(1) in \<open>auto simp: lookup_hostMap_RemoveRoute split: option.splits\<close>)
  moreover have "portMap (RemoveRoute tid r) = portMap r"
    by (rule fmap_ext) (use assms(2) in \<open>auto simp: lookup_portMap_RemoveRoute split: option.splits\<close>)
  moreover have "Router.more (RemoveRoute tid r) = Router.more r"
    by (simp add: RemoveRoute_def Let_def)
  ultimately show ?thesis
    by (simp add: config_RemoveRoute Router.equality)
qed

text \<open>
  Claim C8. \<^verbatim>\<open>RemoveRoute(id)\<close> removes every hostname entry and every port entry whose
  target carries the identifier \<open>tid\<close> and leaves every other entry (and the
  configuration) as it was; when no entry carries the identifier the router is unchanged,
  and the function has no error result; afterwards a lookup of a hostname or of a port
  that was bound to a target of \<open>tid\<close> fails with the not-found error.
\<close>

theorem RemoveRoute_removes_exactly:
  "(\<forall>h. fmlookup (hostMap (RemoveRoute tid r)) h =
          (case fmlookup (hostMap r) h of None \<Rightarrow> None
           | Some t \<Rightarrow> if ID t = tid then None else Some t))
   \<and> (\<forall>p. fmlookup (portMap (RemoveRoute tid r)) p =
          (case fmlookup (portMap r) p of None \<Rightarrow> None
           | Some t \<Rightarrow> if ID t = tid then None else Some t))
   \<and> config (RemoveRoute tid r) = config r
   \<and> ((\<forall>h t. fmlookup (hostMap r) h = Some t \<longrightarrow> ID t \<noteq> tid)
        \<and> (\<forall>p t. fmlookup (portMap r) p = Some t \<longrightarrow> ID t \<noteq> tid)
        \<longrightarrow> RemoveRoute tid r = r)
   \<and> (\<forall>h t. fmlookup (hostMap r) h = Some t \<and> ID t = tid
          \<longrightarrow> GetTunnelByHost (RemoveRoute tid r) h = Inl (NoTunnelForHostname h))
   \<and> (\<forall>p t. fmlookup (portMap r) p = Some t \<and> ID t = tid
          \<longrightarrow> GetTunnelByPort (RemoveRoute tid r) p = Inl (NoTunnelForPort p))"
proof -
  have noop: "(\<forall>h t. fmlookup (hostMap r) h = Some t \<longrightarrow> ID t \<noteq> tid)
        \<and> (\<forall>p t. fmlookup (portMap r) p = Some t \<longrightarrow> ID t \<noteq> tid)
        \<longrightarrow> RemoveRoute tid r = r"
    using RemoveRoute_noop by blast
  have host: "\<forall>h t. fmlookup (hostMap r) h = Some t \<and> ID t = tid
          \<longrightarrow> GetTunnelByHost (RemoveRoute tid r) h = Inl (NoTunnelForHostname h)"
    by (simp add: GetTunnelByHost_def lookup_hostMap_RemoveRoute)
  have port: "\<forall>p t. fmlookup (portMap r) p = Some t \<and> ID t = tid
          \<longrightarrow> GetTunnelByPort (RemoveRoute tid r) p = Inl (NoTunnelForPort p)"
    by (simp add: GetTunnelByPort_def lookup_portMap_RemoveRoute)
  show ?thesis
    using noop host port
    by (simp only: lookup_hostMap_RemoveRoute lookup_portMap_RemoveRoute config_RemoveRoute
                   simp_thms)
qed

lemma router_t1_eq:
  "router_t1 = \<lparr>hostMap = fmupd ''a.example.com'' \<lparr>ID = ''t1'', IP = ''10.0.0.1'', Port = 8080\<rparr> fmempty,
                portMap = fmupd 8080 \<lparr>ID = ''t1'', IP = ''10.0.0.1'', Port = 8080\<rparr> fmempty,
                config = example_config\<rparr>"
  by (simp add: router_t1_def AddRoute_def NewRouter_def Let_def)

theorem RemoveRoute_removes_exactly_witness:
  "fmlookup (hostMap router_t1) ''a.example.com'' = Some \<lparr>ID = ''t1'', IP = ''10.0.0.1'', Port = 8080\<rparr>
   \<and> fmlookup (portMap router_t1) 8080 = Some \<lparr>ID = ''t1'', IP = ''10.0.0.1'', Port = 8080\<rparr>
   \<and> GetTunnelByHost (RemoveRoute ''t1'' router_t1) ''a.example.com'' = Inl (NoTunnelForHostname ''a.example.com'')
   \<and> GetTunnelByPort (RemoveRoute ''t1'' router_t1) 8080 = Inl (NoTunnelForPort 8080)
   \<and> RemoveRoute ''t2'' router_t1 = router_t1"
proof -
  have h: "fmlookup (hostMap router_t1) ''a.example.com'' = Some \<lparr>ID = ''t1'', IP = ''10.0.0.1'', Port = 8080\<rparr>"
    by (simp add: router_t1_eq)
  have p: "fmlookup (portMap router_t1) 8080 = Some \<lparr>ID = ''t1'', IP = ''10.0.0.1'', Port = 8080\<rparr>"
    by (simp add: router_t1_eq)
  have n1: "\<forall>h t. fmlookup (hostMap router_t1) h = Some t \<longrightarrow> ID t \<noteq> ''t2''"
    by (auto simp: router_t1_eq split: if_splits)
  have n2: "\<forall>p t. fmlookup (portMap router_t1) p = Some t \<longrightarrow> ID t \<noteq> ''t2''"
    by (auto simp: router_t1_eq split: if_splits)
  have "GetTunnelByHost (RemoveRoute ''t1'' router_t1) ''a.example.com'' = Inl (NoTunnelForHostname ''a.example.com'')"
    using h RemoveRoute_removes_exactly [of "''t1''" router_t1] by simp
  moreover have "GetTunnelByPort (RemoveRoute ''t1'' router_t1) 8080 = Inl (NoTunnelForPort 8080)"
    using p RemoveRoute_removes_exactly [of "''t1''" router_t1] by simp
  moreover have "RemoveRoute ''t2'' router_t1 = router_t1"
    using n1 n2 RemoveRoute_removes_exactly [of "''t2''" router_t1] by blast
  ultimately show ?thesis using h p by simp
qed

subsection \<open>AddRoute\<close>

lemma ports_positive_NewRouter: "ports_positive (NewRouter c)"
  by (simp add: ports_positive_def NewRouter_def)

lemma ports_positive_AddRoute:
  "ports_positive r \<Longrightarrow> ports_positive (snd (AddRoute tid h ip p r))"
  by (auto simp: ports_positive_def AddRoute_def Let_def)

lemma ports_positive_RemoveRoute:
  "ports_positive r \<Longrightarrow> ports_positive (RemoveRoute tid r)"
  unfolding ports_positive_def fmpred_iff
  by (auto simp: lookup_portMap_RemoveRoute split: option.splits if_splits)

lemma ports_positive_lookup:
  "ports_positive r \<Longrightarrow> \<not> 0 < p \<Longrightarrow> fmlookup (portMap r) p = None"
  unfolding ports_positive_def fmpred_iff
  by (cases "fmlookup (portMap r) p") auto

text \<open>
  Claim C7. When \<^verbatim>\<open>AddRoute(id, hostname, ip, port)\<close> succeeds, the lookup of the hostname
  returns the new target; the lookup of the port returns the same target when
  \<open>port > 0\<close>; when \<open>port\<close> is not positive the port map is unchanged, and in a table
  whose port keys are all positive (every table built by \<^verbatim>\<open>AddRoute\<close> and
  \<^verbatim>\<open>RemoveRoute\<close> from the empty one) the lookup of that port fails. The call succeeds
  exactly when the hostname is free and, for \<open>port > 0\<close>, the port is free; the port
  conflict is reported exactly when the hostname is free, \<open>port > 0\<close> and the port is bound.
\<close>

theorem AddRoute_installs:
  "(AddRoute tid h ip p r = (None, r') \<longrightarrow>
      GetTunnelByHost r' h = Inr \<lparr>ID = tid, IP = ip, Port = p\<rparr>
      \<and> (0 < p \<longrightarrow> GetTunnelByPort r' p = Inr \<lparr>ID = tid, IP = ip, Port = p\<rparr>)
      \<and> (\<not> 0 < p \<longrightarrow> portMap r' = portMap r)
      \<and> (\<not> 0 < p \<and> ports_positive r \<longrightarrow> GetTunnelByPort r' p = Inl (NoTunnelForPort p)))
   \<and> (fst (AddRoute tid h ip p r) = None \<longleftrightarrow>
        fmlookup (hostMap r) h = None \<and> (0 < p \<longrightarrow> fmlookup (portMap r) p = None))
   \<and> (fst (AddRoute tid h ip p r) = Some (PortInUse q) \<longleftrightarrow>
        q = p \<and> fmlookup (hostMap r) h = None \<and> 0 < p \<and> fmlookup (portMap r) p \<noteq> None)"
proof -
  have succ: "AddRoute tid h ip p r = (None, r') \<longrightarrow>
      GetTunnelByHost r' h = Inr \<lparr>ID = tid, IP = ip, Port = p\<rparr>
      \<and> (0 < p \<longrightarrow> GetTunnelByPort r' p = Inr \<lparr>ID = tid, IP = ip, Port = p\<rparr>)
      \<and> (\<not> 0 < p \<longrightarrow> portMap r' = portMap r)
      \<and> (\<not> 0 < p \<and> ports_positive r \<longrightarrow> GetTunnelByPort r' p = Inl (NoTunnelForPort p))"
    by (auto simp: AddRoute_def Let_def GetTunnelByHost_def GetTunnelByPort_def
                   ports_positive_lookup split: if_splits)
  have ok: "fst (AddRoute tid h ip p r) = None \<longleftrightarrow>
        fmlookup (hostMap r) h = None \<and> (0 < p \<longrightarrow> fmlookup (portMap r) p = None)"
    by (auto simp: AddRoute_def Let_def)
  have pc: "fst (AddRoute tid h ip p r) = Some (PortInUse q) \<longleftrightarrow>
        q = p \<and> fmlookup (hostMap r) h = None \<and> 0 < p \<and> fmlookup (portMap r) p \<noteq> None"
    by (auto simp: AddRoute_def Let_def)
  from succ ok pc show ?thesis by blast
qed

theorem AddRoute_installs_witness:
  "AddRoute ''t1'' ''a.example.com'' ''10.0.0.1'' 8080 (NewRouter example_config) = (None, router_t1)
   \<and> GetTunnelByHost router_t1 ''a.example.com'' = Inr \<lparr>ID = ''t1'', IP = ''10.0.0.1'', Port = 8080\<rparr>
   \<and> GetTunnelByPort router_t1 8080 = Inr \<lparr>ID = ''t1'', IP = ''10.0.0.1'', Port = 8080\<rparr>
   \<and> AddRoute ''t0'' ''z.example.com'' ''10.0.0.9'' 0 (NewRouter example_config)
       = (None, (NewRouter example_config)\<lparr>hostMap := fmupd ''z.example.com'' \<lparr>ID = ''t0'', IP = ''10.0.0.9'', Port = 0\<rparr> fmempty\<rparr>)
   \<and> ports_positive (NewRouter example_config)
   \<and> GetTunnelByPort ((NewRouter example_config)\<lparr>hostMap := fmupd ''z.example.com'' \<lparr>ID = ''t0'', IP = ''10.0.0.9'', Port = 0\<rparr> fmempty\<rparr>) 0
       = Inl (NoTunnelForPort 0)"
proof -
  have a: "AddRoute ''t1'' ''a.example.com'' ''10.0.0.1'' 8080 (NewRouter example_config) = (None, router_t1)"
    by (simp add: router_t1_def AddRoute_def NewRouter_def Let_def)
  have b: "AddRoute ''t0'' ''z.example.com'' ''10.0.0.9'' 0 (NewRouter example_config)
       = (None, (NewRouter example_config)\<lparr>hostMap := fmupd ''z.example.com'' \<lparr>ID = ''t0'', IP = ''10.0.0.9'', Port = 0\<rparr> fmempty\<rparr>)"
    by (simp add: AddRoute_def NewRouter_def Let_def)
  have c: "ports_positive (NewRouter example_config)"
    by (simp add: ports_positive_def NewRouter_def)
  show ?thesis
    using a b c
      AddRoute_installs [of "''t1''" "''a.example.com''" "''10.0.0.1''" 8080 "NewRouter example_config" router_t1]
      AddRoute_installs [of "''t0''" "''z.example.com''" "''10.0.0.9''" 0 "NewRouter example_config"
        "(NewRouter example_config)\<lparr>hostMap := fmupd ''z.example.com'' \<lparr>ID = ''t0'', IP = ''10.0.0.9'', Port = 0\<rparr> fmempty\<rparr>"]
    by simp
qed

lemma AddRoute_hostname_conflict_unchanged:
  "fmlookup (hostMap r) h \<noteq> None \<Longrightarrow> AddRoute tid h ip p r = (Some (HostnameInUse h), r)"
  by (simp add: AddRoute_def)

lemma AddRoute_port_conflict_state:
  "fst (AddRoute tid h ip p r) = Some (PortInUse p) \<Longrightarrow>
     snd (AddRoute tid h ip p r)
       = r\<lparr>hostMap := fmupd h \<lparr>ID = tid, IP = ip, Port = p\<rparr> (hostMap r)\<rparr>"
  by (auto simp: AddRoute_def Let_def split: if_splits)

text \<open>
  Claim C1. A call of \<^verbatim>\<open>AddRoute\<close> that is rejected leaves the table as it was; in
  particular one rejected for a port collision installs no hostname entry. The source
  stores the hostname entry before it checks the port: adding tunnel t2 under a free
  hostname and the port 8080 that tunnel t1 holds returns the port conflict, and the table
  then maps the hostname to t2, so the table has changed and a second attempt of t2 with
  a free port is rejected for its own hostname.
\<close>

theorem AddRoute_port_conflict_keeps_hostname:
  "fst (AddRoute ''t2'' ''b.example.com'' ''10.0.0.2'' 8080 router_t1) = Some (PortInUse 8080)
   \<and> fmlookup (hostMap router_t1) ''b.example.com'' = None
   \<and> fmlookup (hostMap (snd (AddRoute ''t2'' ''b.example.com'' ''10.0.0.2'' 8080 router_t1))) ''b.example.com''
        = Some \<lparr>ID = ''t2'', IP = ''10.0.0.2'', Port = 8080\<rparr>
   \<and> snd (AddRoute ''t2'' ''b.example.com'' ''10.0.0.2'' 8080 router_t1) \<noteq> router_t1
   \<and> fst (AddRoute ''t2'' ''b.example.com'' ''10.0.0.2'' 9090
            (snd (AddRoute ''t2'' ''b.example.com'' ''10.0.0.2'' 8080 router_t1)))
        = Some (HostnameInUse ''b.example.com'')"
proof -
  have before: "fmlookup (hostMap router_t1) ''b.example.com'' = None"
    by (simp add: router_t1_eq)
  have after: "fmlookup (hostMap (snd (AddRoute ''t2'' ''b.example.com'' ''10.0.0.2'' 8080 router_t1))) ''b.example.com''
        = Some \<lparr>ID = ''t2'', IP = ''10.0.0.2'', Port = 8080\<rparr>"
    by (simp add: router_t1_eq AddRoute_def Let_def)
  have changed: "snd (AddRoute ''t2'' ''b.example.com'' ''10.0.0.2'' 8080 router_t1) \<noteq> router_t1"
    using before after by auto
  have err: "fst (AddRoute ''t2'' ''b.example.com'' ''10.0.0.2'' 8080 router_t1) = Some (PortInUse 8080)"
    by (simp add: router_t1_eq AddRoute_def Let_def)
  have retry: "fst (AddRoute ''t2'' ''b.example.com'' ''10.0.0.2'' 9090
            (snd (AddRoute ''t2'' ''b.example.com'' ''10.0.0.2'' 8080 router_t1)))
        = Some (HostnameInUse ''b.example.com'')"
    by (simp add: router_t1_eq AddRoute_def Let_def)
  show ?thesis using before after changed err retry by simp
qed


section \<open>Properties of the peer address allocator\<close>

lemma length_increment_from [simp]: "length (increment_from n ip) = length ip"
  by (induction n arbitrary: ip) (auto simp: Let_def)

lemma increment_from_append:
  "n \<le> length xs \<Longrightarrow> increment_from n (xs @ ys) = increment_from n xs @ ys"
  by (induction n arbitrary: xs) (auto simp: Let_def nth_append list_update_append)

lemma ip_value_snoc: "ip_value (xs @ [b]) = 256 * ip_value xs + unat b"
  by (simp add: ip_value_def)

lemma increment_from_snoc:
  "increment_from (Suc (length ys)) (ys @ [b]) =
     (if b + 1 \<noteq> 0 then ys @ [b + 1] else increment_from (length ys) ys @ [0])"
  by (simp add: Let_def increment_from_append)

lemma unat_plus_one: "(b :: 8 word) + 1 \<noteq> 0 \<Longrightarrow> unat (b + 1) = unat b + 1"
  by (metis Suc_eq_plus1 add.commute unatSuc)

lemma unat_wrap: "(b :: 8 word) + 1 = 0 \<Longrightarrow> unat b = 255"
proof -
  assume "b + 1 = 0"
  then have "b = - 1" by (simp add: eq_neg_iff_add_eq_0)
  then show ?thesis by (simp add: unsigned_minus_1_eq_mask mask_eq_exp_minus_1)
qed

lemma ip_value_increment:
  "list_all (\<lambda>b. b = 0) (increment_from (length ip) ip)
   \<or> ip_value (increment_from (length ip) ip) = ip_value ip + 1"
proof (induction ip rule: rev_induct)
  case Nil
  then show ?case by simp
next
  case (snoc b ys)
  show ?case
  proof (cases "b + 1 = 0")
    case False
    then show ?thesis
      by (simp add: increment_from_snoc ip_value_snoc unat_plus_one del: increment_from.simps)
  next
    case True
    then show ?thesis
      using snoc.IH
      by (auto simp: increment_from_snoc ip_value_snoc unat_wrap simp del: increment_from.simps)
  qed
qed

lemma networkNumberAndMask_block:
  "networkNumberAndMask (ipNet NewWireGuardManager) = ([10, 10, 0, 0], [0xff, 0xff, 0, 0])"
  by (simp add: networkNumberAndMask_def NewWireGuardManager_def To4_def)

lemma word8_255: "(255 :: 8 word) = - 1"
  by simp

lemma and_ff: "(b :: 8 word) AND 0xff = b"
  using word8_255 by (simp only: word_and_max)

lemma Contains_block_first_byte:
  assumes "Contains (ipNet NewWireGuardManager) ip"
  shows "\<exists>i < length ip. ip ! i = 10"
proof (cases "To4 ip")
  case None
  then have "length ip \<noteq> 4" by (auto simp: To4_def split: if_splits)
  with assms None show ?thesis
    by (simp add: Contains_def networkNumberAndMask_block)
next
  case (Some x)
  with assms have len: "length x = 4"
    and all: "list_all (\<lambda>i. ([10, 10, 0, 0] ! i) AND ([0xff, 0xff, 0, 0] ! i) = (x ! i) AND (([0xff, 0xff, 0, 0] :: 8 word list) ! i)) [0..<length x]"
    by (auto simp: Contains_def networkNumberAndMask_block split: if_splits)
  from all len have "\<forall>i \<in> {0..<4::nat}. ([10, 10, 0, 0] ! i) AND ([0xff, 0xff, 0, 0] ! i) = (x ! i) AND (([0xff, 0xff, 0, 0] :: 8 word list) ! i)"
    by (simp add: list_all_iff)
  then have "([10, 10, 0, 0] ! 0) AND ([0xff, 0xff, 0, 0] ! 0) = (x ! 0) AND (([0xff, 0xff, 0, 0] :: 8 word list) ! 0)"
    by (rule bspec) simp
  then have x0: "x ! 0 = 10" by (simp add: and_ff)
  from Some consider "x = ip" "length ip = 4" | "x = drop 12 ip" "length ip = 16"
    by (auto simp: To4_def split: if_splits)
  then show ?thesis
  proof cases
    case 1
    with x0 have "0 < length ip \<and> ip ! 0 = 10" by simp
    then show ?thesis by blast
  next
    case 2
    with x0 have "12 < length ip \<and> ip ! 12 = 10" by simp
    then show ?thesis by blast
  qed
qed

lemma Contains_block_nonzero:
  "Contains (ipNet NewWireGuardManager) ip \<Longrightarrow> \<not> list_all (\<lambda>b. b = 0) ip"
  using Contains_block_first_byte [of ip] by (auto simp: list_all_length)

lemma allocateIP_Some:
  "allocateIP w = (Some ip, w') \<Longrightarrow>
     ip = increment_from (length (nextIP w)) (nextIP w) \<and> Contains (ipNet w) ip
     \<and> w' = w\<lparr>nextIP := ip\<rparr>"
  by (auto simp: allocateIP_def Let_def split: if_splits)

lemma allocateIP_None: "allocateIP w = (None, w') \<Longrightarrow> w' = w"
  by (auto simp: allocateIP_def Let_def split: if_splits)

lemma allocateIP_value:
  assumes "ipNet w = ipNet NewWireGuardManager" and "allocateIP w = (Some ip, w')"
  shows "ip_value ip = ip_value (nextIP w) + 1"
  using assms ip_value_increment [of "nextIP w"] Contains_block_nonzero [of ip]
  by (auto dest!: allocateIP_Some)

lemma issued_in_block: "ip \<in> set (issued n w) \<Longrightarrow> Contains (ipNet w) ip"
proof (induction n arbitrary: w)
  case 0
  then show ?case by simp
next
  case (Suc n)
  obtain r w' where a: "allocateIP w = (r, w')" by (cases "allocateIP w")
  show ?case
  proof (cases r)
    case None
    with a Suc show ?thesis by (auto dest: allocateIP_None)
  next
    case (Some x)
    with a have eq: "ipNet w' = ipNet w" and cx: "Contains (ipNet w) x"
      by (auto dest: allocateIP_Some)
    from Suc.prems a Some have "ip = x \<or> ip \<in> set (issued n w')" by simp
    then show ?thesis
    proof
      assume "ip = x"
      with cx show ?thesis by simp
    next
      assume "ip \<in> set (issued n w')"
      then have "Contains (ipNet w') ip" by (rule Suc.IH)
      with eq show ?thesis by simp
    qed
  qed
qed

lemma issued_above_cursor:
  assumes "ipNet w = ipNet NewWireGuardManager"
  shows "sorted_wrt (<) (map ip_value (issued n w))
         \<and> (\<forall>ip \<in> set (issued n w). ip_value (nextIP w) < ip_value ip)"
  using assms
proof (induction n arbitrary: w)
  case 0
  then show ?case by simp
next
  case (Suc n)
  obtain r w' where a: "allocateIP w = (r, w')" by (cases "allocateIP w")
  show ?case
  proof (cases r)
    case None
    with a Suc show ?thesis by (auto dest: allocateIP_None)
  next
    case (Some x)
    with a have w': "w' = w\<lparr>nextIP := x\<rparr>" by (auto dest: allocateIP_Some)
    from a Some have "allocateIP w = (Some x, w')" by simp
    from allocateIP_value [OF Suc.prems this]
    have v: "ip_value x = ip_value (nextIP w) + 1" .
    from w' Suc.prems have "ipNet w' = ipNet NewWireGuardManager" by simp
    from Suc.IH [OF this] w'
    have "sorted_wrt (<) (map ip_value (issued n w'))"
      and "\<forall>ip \<in> set (issued n w'). ip_value x < ip_value ip" by auto
    with a Some v show ?thesis by auto
  qed
qed

lemma issued_distinct:
  assumes "ipNet w = ipNet NewWireGuardManager"
  shows "distinct (issued n w)"
proof -
  have "sorted_wrt (<) (map ip_value (issued n w))"
    using issued_above_cursor [OF assms] by blast
  then have "distinct (map ip_value (issued n w))"
    by (simp add: strict_sorted_iff)
  then show ?thesis by (simp add: distinct_map)
qed

lemma issued_sequential:
  "i < length (issued n w) \<Longrightarrow>
     issued n w ! i =
       increment_from (length ((nextIP w # issued n w) ! i)) ((nextIP w # issued n w) ! i)"
proof (induction n arbitrary: w i)
  case 0
  then show ?case by simp
next
  case (Suc n)
  obtain r w' where a: "allocateIP w = (r, w')" by (cases "allocateIP w")
  show ?case
  proof (cases r)
    case None
    with a Suc show ?thesis by (auto dest: allocateIP_None)
  next
    case (Some x)
    with a have w': "w' = w\<lparr>nextIP := x\<rparr>"
      and x: "x = increment_from (length (nextIP w)) (nextIP w)"
      by (auto dest: allocateIP_Some)
    show ?thesis
    proof (cases i)
      case 0
      with a Some x show ?thesis by simp
    next
      case (Suc j)
      with Suc.prems a Some have "j < length (issued n w')" by simp
      from Suc.IH [OF this] w' have "issued n w' ! j =
        increment_from (length ((x # issued n w') ! j)) ((x # issued n w') ! j)" by simp
      with a Some Suc show ?thesis by simp
    qed
  qed
qed

lemma allocateIP_first:
  "allocateIP NewWireGuardManager =
     (Some (v4InV6 10 10 0 2), NewWireGuardManager\<lparr>nextIP := v4InV6 10 10 0 2\<rparr>)"
  by (simp add: allocateIP_def NewWireGuardManager_def v4InV6_def Contains_def
        networkNumberAndMask_def To4_def Let_def numeral_eq_Suc upt_rec)

lemma issued_first:
  "issued (Suc n) NewWireGuardManager
     = v4InV6 10 10 0 2 # issued n (NewWireGuardManager\<lparr>nextIP := v4InV6 10 10 0 2\<rparr>)"
  by (simp add: allocateIP_first)

lemma issued_3:
  "issued 3 NewWireGuardManager = [v4InV6 10 10 0 2, v4InV6 10 10 0 3, v4InV6 10 10 0 4]"
  by code_simp

lemma issued_near_end: "issued 3 wg_near_end = [v4InV6 10 10 255 255]"
  by code_simp

lemma issued_network_order:
  assumes blk: "ipNet w = ipNet NewWireGuardManager" and i: "i < length (issued n w)"
  shows "ip_value (issued n w ! i) = ip_value ((nextIP w # issued n w) ! i) + 1"
    and "length (issued n w ! i) = length ((nextIP w # issued n w) ! i)"
proof -
  let ?prev = "(nextIP w # issued n w) ! i"
  have eq: "issued n w ! i = increment_from (length ?prev) ?prev"
    using i by (rule issued_sequential)
  from i have "issued n w ! i \<in> set (issued n w)" by simp
  then have "Contains (ipNet w) (issued n w ! i)"
    by (rule issued_in_block)
  then have "Contains (ipNet NewWireGuardManager) (issued n w ! i)"
    using blk by simp
  then have "\<not> list_all (\<lambda>b. b = 0) (issued n w ! i)"
    by (rule Contains_block_nonzero)
  then have nz: "\<not> list_all (\<lambda>b. b = 0) (increment_from (length ?prev) ?prev)"
    using eq by simp
  from ip_value_increment [of ?prev] nz
  have "ip_value (increment_from (length ?prev) ?prev) = ip_value ?prev + 1" by blast
  then show "ip_value (issued n w ! i) = ip_value ?prev + 1"
    using eq by simp
  have "length (increment_from (length ?prev) ?prev) = length ?prev"
    by (rule length_increment_from)
  then show "length (issued n w ! i) = length ?prev"
    using eq by simp
qed

lemma issued_closed_form:
  assumes blk: "ipNet w = ipNet NewWireGuardManager"
  shows "i < length (issued n w) \<Longrightarrow> ip_value (issued n w ! i) = ip_value (nextIP w) + i + 1"
proof (induction i)
  case 0
  with issued_network_order(1) [OF blk, of 0 n] show ?case by simp
next
  case (Suc i)
  then have "i < length (issued n w)" by simp
  with Suc.IH have "ip_value (issued n w ! i) = ip_value (nextIP w) + i + 1" by simp
  with issued_network_order(1) [OF blk Suc.prems] show ?case by simp
qed

lemma issued_carry: "issued 2 wg_carry = [v4InV6 10 10 1 0, v4InV6 10 10 1 1]"
  by code_simp

lemma ip_value_carry:
  "ip_value (v4InV6 10 10 0 255) = 281470850171135"
  "ip_value (v4InV6 10 10 1 0) = 281470850171136"
  by (simp_all add: ip_value_def v4InV6_def)

text \<open>
  Claim C4. For the allocator of the block \<open>10.10.0.0/16\<close> (the only block
  \<^verbatim>\<open>NewWireGuardManager\<close> configures) and any cursor, the addresses handed out by any
  number of consecutive allocations are pairwise distinct and each lies in the block.
  Issuance is sequential in network order: read as a number, most significant byte
  first (\<open>ip_value\<close>), each address handed out is the one before it plus one, with the
  same number of bytes, the first is the cursor plus one, and so the address of index
  \<open>i\<close> is the cursor plus \<open>i + 1\<close>; it is also what the loop of the source computes
  from the one before it. On a new allocator the first address handed out is
  \<open>10.10.0.2\<close>.
\<close>

theorem allocateIP_sequence:
  "(ipNet w = ipNet NewWireGuardManager \<longrightarrow>
      distinct (issued n w)
      \<and> (\<forall>ip \<in> set (issued n w). Contains (ipNet w) ip)
      \<and> (\<forall>i < length (issued n w).
            issued n w ! i =
              increment_from (length ((nextIP w # issued n w) ! i)) ((nextIP w # issued n w) ! i))
      \<and> (\<forall>i < length (issued n w).
            ip_value (issued n w ! i) = ip_value ((nextIP w # issued n w) ! i) + 1
            \<and> length (issued n w ! i) = length ((nextIP w # issued n w) ! i)
            \<and> ip_value (issued n w ! i) = ip_value (nextIP w) + i + 1))
   \<and> hd (issued (Suc n) NewWireGuardManager) = v4InV6 10 10 0 2
   \<and> issued (Suc n) NewWireGuardManager \<noteq> []"
proof -
  have "distinct (issued n w)" if "ipNet w = ipNet NewWireGuardManager"
    using that by (rule issued_distinct)
  moreover have "\<forall>ip \<in> set (issued n w). Contains (ipNet w) ip"
    by (simp add: issued_in_block)
  moreover have "\<forall>i < length (issued n w).
            issued n w ! i =
              increment_from (length ((nextIP w # issued n w) ! i)) ((nextIP w # issued n w) ! i)"
    using issued_sequential by blast
  moreover have "\<forall>i < length (issued n w).
            ip_value (issued n w ! i) = ip_value ((nextIP w # issued n w) ! i) + 1
            \<and> length (issued n w ! i) = length ((nextIP w # issued n w) ! i)
            \<and> ip_value (issued n w ! i) = ip_value (nextIP w) + i + 1"
    if "ipNet w = ipNet NewWireGuardManager"
    using issued_network_order [OF that] issued_closed_form [OF that] by blast
  moreover have "hd (issued (Suc n) NewWireGuardManager) = v4InV6 10 10 0 2"
    and "issued (Suc n) NewWireGuardManager \<noteq> []"
    by (simp_all add: issued_first del: issued.simps)
  ultimately show ?thesis by blast
qed

theorem allocateIP_sequence_witness:
  "ipNet wg_near_end = ipNet NewWireGuardManager
   \<and> issued 3 NewWireGuardManager = [v4InV6 10 10 0 2, v4InV6 10 10 0 3, v4InV6 10 10 0 4]
   \<and> distinct (issued 3 NewWireGuardManager)
   \<and> Contains (ipNet NewWireGuardManager) (v4InV6 10 10 0 4)
   \<and> issued 3 wg_near_end = [v4InV6 10 10 255 255]
   \<and> Contains (ipNet wg_near_end) (v4InV6 10 10 255 255)
   \<and> v4InV6 10 10 255 255 = increment_from 16 (v4InV6 10 10 255 254)
   \<and> ipNet wg_carry = ipNet NewWireGuardManager
   \<and> issued 2 wg_carry = [v4InV6 10 10 1 0, v4InV6 10 10 1 1]
   \<and> ip_value (v4InV6 10 10 1 0) = ip_value (v4InV6 10 10 0 255) + 1
   \<and> ip_value (v4InV6 10 10 1 1) = ip_value (v4InV6 10 10 1 0) + 1
   \<and> ip_value (v4InV6 10 10 1 1) = ip_value (v4InV6 10 10 0 255) + 2
   \<and> ip_value (v4InV6 10 10 0 255) = 281470850171135
   \<and> ip_value (v4InV6 10 10 1 0) = 281470850171136"
proof -
  have e: "ipNet wg_near_end = ipNet NewWireGuardManager"
    by (simp add: wg_near_end_def)
  have c: "nextIP wg_near_end = v4InV6 10 10 255 254"
    by (simp add: wg_near_end_def)
  have l: "length (v4InV6 10 10 255 254) = 16"
    by (simp add: v4InV6_def)
  from allocateIP_sequence [of NewWireGuardManager 3]
  have d1: "distinct (issued 3 NewWireGuardManager)"
    and b1: "\<forall>ip \<in> set (issued 3 NewWireGuardManager). Contains (ipNet NewWireGuardManager) ip"
    by blast+
  from b1 have c1: "Contains (ipNet NewWireGuardManager) (v4InV6 10 10 0 4)"
    by (simp add: issued_3)
  from allocateIP_sequence [of wg_near_end 3] e
  have b2: "\<forall>ip \<in> set (issued 3 wg_near_end). Contains (ipNet wg_near_end) ip"
    and s2: "\<forall>i < length (issued 3 wg_near_end).
            issued 3 wg_near_end ! i =
              increment_from (length ((nextIP wg_near_end # issued 3 wg_near_end) ! i))
                ((nextIP wg_near_end # issued 3 wg_near_end) ! i)"
    by blast+
  from b2 have c2: "Contains (ipNet wg_near_end) (v4InV6 10 10 255 255)"
    by (simp add: issued_near_end)
  from s2 have "0 < length (issued 3 wg_near_end) \<longrightarrow>
            issued 3 wg_near_end ! 0 =
              increment_from (length ((nextIP wg_near_end # issued 3 wg_near_end) ! 0))
                ((nextIP wg_near_end # issued 3 wg_near_end) ! 0)"
    by blast
  then have i2: "v4InV6 10 10 255 255 = increment_from 16 (v4InV6 10 10 255 254)"
    by (simp add: issued_near_end c l)
  have e3: "ipNet wg_carry = ipNet NewWireGuardManager"
    by (simp add: wg_carry_def)
  have c3: "nextIP wg_carry = v4InV6 10 10 0 255"
    by (simp add: wg_carry_def)
  from allocateIP_sequence [of wg_carry 2] e3
  have v3: "\<forall>i < length (issued 2 wg_carry).
            ip_value (issued 2 wg_carry ! i) = ip_value ((nextIP wg_carry # issued 2 wg_carry) ! i) + 1
            \<and> length (issued 2 wg_carry ! i) = length ((nextIP wg_carry # issued 2 wg_carry) ! i)
            \<and> ip_value (issued 2 wg_carry ! i) = ip_value (nextIP wg_carry) + i + 1"
    by blast
  from v3 have "0 < length (issued 2 wg_carry) \<longrightarrow>
      ip_value (issued 2 wg_carry ! 0) = ip_value ((nextIP wg_carry # issued 2 wg_carry) ! 0) + 1"
    by blast
  then have n0: "ip_value (v4InV6 10 10 1 0) = ip_value (v4InV6 10 10 0 255) + 1"
    by (simp add: issued_carry c3)
  from v3 have "1 < length (issued 2 wg_carry) \<longrightarrow>
      ip_value (issued 2 wg_carry ! 1) = ip_value ((nextIP wg_carry # issued 2 wg_carry) ! 1) + 1
      \<and> ip_value (issued 2 wg_carry ! 1) = ip_value (nextIP wg_carry) + 1 + 1"
    by blast
  then have n1: "ip_value (v4InV6 10 10 1 1) = ip_value (v4InV6 10 10 1 0) + 1"
    and n2: "ip_value (v4InV6 10 10 1 1) = ip_value (v4InV6 10 10 0 255) + 2"
    by (simp_all add: issued_carry c3)
  from e issued_3 d1 c1 issued_near_end c2 i2 e3 issued_carry n0 n1 n2 ip_value_carry
  show ?thesis by blast
qed

lemma SetupPeer_set_fails:
  "SetupPeer wg_set_fails ''a'' ''peerkey'' NewWireGuardManager
     = (Inl AddPeerFailed, NewWireGuardManager\<lparr>nextIP := v4InV6 10 10 0 2\<rparr>)"
  by (simp add: SetupPeer_def generatePrivateKey_def generatePublicKey_def addPeer_def
        wg_set_fails_def wg_ok_def allocateIP_first)

lemma SetupPeer_keygen_failure_unchanged:
  "fst (SetupPeer tool i k w) = Inl GeneratePrivateKeyFailed
   \<or> fst (SetupPeer tool i k w) = Inl GeneratePublicKeyFailed
   \<or> fst (SetupPeer tool i k w) = Inl AllocateIPFailed
   \<Longrightarrow> snd (SetupPeer tool i k w) = w"
  by (auto simp: SetupPeer_def generatePrivateKey_def generatePublicKey_def addPeer_def Let_def
           split: option.splits sum.splits prod.splits if_splits dest: allocateIP_None)

text \<open>
  A successful \<^verbatim>\<open>SetupPeer\<close> hands out exactly the address that \<^verbatim>\<open>allocateIP\<close> returns, so
  the statements about \<open>issued\<close> are statements about the addresses of the peers.
\<close>

lemma SetupPeer_success_allocates:
  "SetupPeer tool i k w = (Inr cfg, w') \<Longrightarrow> allocateIP w = (Some (ClientIP cfg), w')"
  by (auto simp: SetupPeer_def generatePrivateKey_def generatePublicKey_def addPeer_def Let_def
           split: option.splits sum.splits prod.splits if_splits)

lemma SetupPeer_genkey_fails:
  "SetupPeer wg_genkey_fails ''a'' ''peerkey'' NewWireGuardManager
     = (Inl GeneratePrivateKeyFailed, NewWireGuardManager)"
  by (simp add: SetupPeer_def generatePrivateKey_def wg_genkey_fails_def wg_ok_def)

text \<open>
  Claim C2. A call of \<^verbatim>\<open>SetupPeer\<close> that fails consumes no address. When the keys cannot
  be generated the allocator is unchanged (\<open>SetupPeer_keygen_failure_unchanged\<close>), as it is when \<^verbatim>\<open>allocateIP\<close>
  itself refuses an address outside the block. When the registration of the peer fails,
  \<^verbatim>\<open>allocateIP\<close> has already stored the new cursor: on a new allocator the failed call
  moves the cursor from \<open>10.10.0.1\<close> to \<open>10.10.0.2\<close>.
\<close>

theorem SetupPeer_addPeer_failure_advances_cursor:
  "fst (SetupPeer wg_set_fails ''a'' ''peerkey'' NewWireGuardManager) = Inl AddPeerFailed
   \<and> nextIP NewWireGuardManager = v4InV6 10 10 0 1
   \<and> nextIP (snd (SetupPeer wg_set_fails ''a'' ''peerkey'' NewWireGuardManager)) = v4InV6 10 10 0 2
   \<and> nextIP (snd (SetupPeer wg_set_fails ''a'' ''peerkey'' NewWireGuardManager))
       \<noteq> nextIP NewWireGuardManager"
  by (simp add: SetupPeer_set_fails) (simp add: NewWireGuardManager_def v4InV6_def)


section \<open>Properties of the tunnel registry\<close>

lemma maxTunnels_CreateTunnel:
  "maxTunnels (snd (CreateTunnel tool t1 t2 i h p k md m)) = maxTunnels m"
  by (auto simp: CreateTunnel_def Let_def split: prod.splits sum.splits)

lemma CreateTunnel_at_capacity:
  "maxTunnels m \<le> len_tunnels m \<Longrightarrow>
     CreateTunnel tool t1 t2 i h p k md m = (Inl (MaxTunnelsReached (maxTunnels m)), m)"
  by (simp add: CreateTunnel_def)

lemma tunnels_CreateTunnel:
  "tunnels (snd (CreateTunnel tool t1 t2 i h p k md m)) = tunnels m
   \<or> (len_tunnels m < maxTunnels m \<and> fmlookup (tunnels m) i = None
       \<and> (\<exists>t. tunnels (snd (CreateTunnel tool t1 t2 i h p k md m)) = fmupd i t (tunnels m)))"
  by (auto simp: CreateTunnel_def Let_def split: prod.splits sum.splits)

lemma len_fmupd_fresh:
  "fmlookup ts i = None \<Longrightarrow> fcard (finsert i (fmdom ts)) = Suc (fcard (fmdom ts))"
  by (simp add: fcard_finsert_if fmdom_notI)

lemma len_fmupd_present:
  "fmlookup ts i = Some u \<Longrightarrow> fcard (finsert i (fmdom ts)) = fcard (fmdom ts)"
  by (simp add: fcard_finsert_if fmdomI)

lemma len_fmdrop: "fcard (fmdom (fmdrop i ts)) \<le> fcard (fmdom ts)"
  by (simp add: fcard_fminus1_le)

lemma len_CreateTunnel:
  assumes "len_tunnels m \<le> max (maxTunnels m) 0"
  shows "len_tunnels (snd (CreateTunnel tool t1 t2 i h p k md m)) \<le> max (maxTunnels m) 0"
  using tunnels_CreateTunnel [of tool t1 t2 i h p k md m]
proof
  assume "tunnels (snd (CreateTunnel tool t1 t2 i h p k md m)) = tunnels m"
  with assms show ?thesis by (simp add: len_tunnels_def)
next
  assume "len_tunnels m < maxTunnels m \<and> fmlookup (tunnels m) i = None
       \<and> (\<exists>t. tunnels (snd (CreateTunnel tool t1 t2 i h p k md m)) = fmupd i t (tunnels m))"
  then show ?thesis
    by (auto simp: len_tunnels_def len_fmupd_fresh)
qed

lemma run_call_maxTunnels: "maxTunnels (run_call c m) = maxTunnels m"
  by (cases c)
     (auto simp: maxTunnels_CreateTunnel RemoveTunnel_def UpdateLastActive_def Let_def
           split: option.splits)

lemma run_call_len:
  assumes "len_tunnels m \<le> max (maxTunnels m) 0"
  shows "len_tunnels (run_call c m) \<le> max (maxTunnels m) 0"
proof (cases c)
  case (CallCreate tool t1 t2 i h p k md)
  with assms show ?thesis by (simp add: len_CreateTunnel)
next
  case (CallRemove tool i)
  have "fcard (fmdom (fmdrop i (tunnels m))) \<le> fcard (fmdom (tunnels m))"
    by (rule len_fmdrop)
  with assms CallRemove show ?thesis
    by (auto simp: RemoveTunnel_def Let_def len_tunnels_def split: option.splits)
next
  case (CallUpdateLastActive now i)
  with assms show ?thesis
    by (auto simp: UpdateLastActive_def len_tunnels_def len_fmupd_present split: option.splits)
qed

lemma run_calls_inv:
  assumes "len_tunnels m \<le> max (maxTunnels m) 0"
  shows "len_tunnels (run_calls cs m) \<le> max (maxTunnels m) 0
         \<and> maxTunnels (run_calls cs m) = maxTunnels m"
  using assms
proof (induction cs arbitrary: m)
  case Nil
  then show ?case by (simp add: run_calls_def)
next
  case (Cons c cs)
  have "len_tunnels (run_call c m) \<le> max (maxTunnels (run_call c m)) 0"
    using run_call_len [OF Cons.prems] by (simp add: run_call_maxTunnels)
  from Cons.IH [OF this] show ?case
    by (simp add: run_calls_def run_call_maxTunnels)
qed

lemma manager_a_tunnels:
  "tunnels manager_a = fmupd ''a'' \<lparr>TunnelID = ''a'', Hostname = ''a.example.com'', TargetPort = 8080,
       PublicEndpoint = [], Created = 1, LastActive = 1, WireGuardCfg = None, Metadata = fmempty\<rparr> fmempty"
  and manager_a_maxTunnels: "maxTunnels manager_a = 1"
  and manager_a_wg: "wg manager_a = NewWireGuardManager"
  by (simp_all add: manager_a_def CreateTunnel_def NewManager_def len_tunnels_def Let_def fcard_fempty)

lemma manager_a_len: "len_tunnels manager_a = 1"
  by (simp add: len_tunnels_def manager_a_tunnels fcard_finsert_if fcard_fempty)

text \<open>
  Claim C3, as the code has it. A call of \<^verbatim>\<open>CreateTunnel\<close> made while the number of live
  tunnels has reached the maximum fails with the capacity error and leaves the manager
  unchanged; after any sequence of calls on a manager made with maximum \<open>n\<close> the number
  of live tunnels is at most \<open>max n 0\<close>, and the maximum is still \<open>n\<close>. The maximum is
  a Go \<^verbatim>\<open>int\<close> that nothing validates: for a negative \<open>n\<close> the registry stays empty,
  and its size 0 is above \<open>n\<close>.
\<close>

theorem CreateTunnel_capacity:
  "(maxTunnels m \<le> len_tunnels m \<longrightarrow>
      CreateTunnel tool t1 t2 i h p k md m = (Inl (MaxTunnelsReached (maxTunnels m)), m))
   \<and> len_tunnels (run_calls cs (NewManager n)) \<le> max n 0
   \<and> maxTunnels (run_calls cs (NewManager n)) = n"
proof -
  have "len_tunnels (NewManager n) \<le> max (maxTunnels (NewManager n)) 0"
    by (simp add: len_tunnels_def NewManager_def fcard_fempty)
  from run_calls_inv [OF this, of cs] have
    "len_tunnels (run_calls cs (NewManager n)) \<le> max n 0
     \<and> maxTunnels (run_calls cs (NewManager n)) = n"
    by (simp add: NewManager_def)
  then show ?thesis by (simp add: CreateTunnel_at_capacity)
qed

theorem CreateTunnel_capacity_witness:
  "maxTunnels manager_a \<le> len_tunnels manager_a
   \<and> CreateTunnel wg_ok 2 2 ''b'' ''b.example.com'' 8081 [] fmempty manager_a
       = (Inl (MaxTunnelsReached 1), manager_a)
   \<and> fst (RemoveTunnel wg_ok ''a'' manager_a) = None
   \<and> fst (CreateTunnel wg_ok 3 3 ''b'' ''b.example.com'' 8081 [] fmempty
            (snd (RemoveTunnel wg_ok ''a'' manager_a)))
       = Inr \<lparr>TunnelID = ''b'', Hostname = ''b.example.com'', TargetPort = 8081,
              PublicEndpoint = [], Created = 3, LastActive = 3, WireGuardCfg = None,
              Metadata = fmempty\<rparr>"
proof -
  have cap: "maxTunnels manager_a \<le> len_tunnels manager_a"
    by (simp add: manager_a_len manager_a_maxTunnels)
  have rm: "fst (RemoveTunnel wg_ok ''a'' manager_a) = None"
    by (simp add: RemoveTunnel_def manager_a_tunnels Let_def)
  have rm_tunnels: "tunnels (snd (RemoveTunnel wg_ok ''a'' manager_a)) = fmempty"
    by (simp add: RemoveTunnel_def manager_a_tunnels Let_def fmdrop_fmupd)
  have rm_max: "maxTunnels (snd (RemoveTunnel wg_ok ''a'' manager_a)) = 1"
    by (simp add: RemoveTunnel_def manager_a_tunnels manager_a_maxTunnels Let_def)
  have again: "fst (CreateTunnel wg_ok 3 3 ''b'' ''b.example.com'' 8081 [] fmempty
            (snd (RemoveTunnel wg_ok ''a'' manager_a)))
       = Inr \<lparr>TunnelID = ''b'', Hostname = ''b.example.com'', TargetPort = 8081,
              PublicEndpoint = [], Created = 3, LastActive = 3, WireGuardCfg = None,
              Metadata = fmempty\<rparr>"
    by (simp add: CreateTunnel_def len_tunnels_def rm_tunnels rm_max Let_def fcard_fempty)
  from cap rm again
    CreateTunnel_capacity [of manager_a wg_ok 2 2 "''b''" "''b.example.com''" 8081 "[]" fmempty "[]" 1]
  show ?thesis by (simp add: manager_a_maxTunnels)
qed

theorem negative_maximum_counterexample:
  "\<not> len_tunnels (run_calls [] (NewManager (- 1))) \<le> - 1"
  by (simp add: run_calls_def NewManager_def len_tunnels_def fcard_fempty)

text \<open>
  Claim C5, as the code has it. \<^verbatim>\<open>CreateTunnel\<close> with the identifier of a live tunnel
  fails and leaves the whole manager, and so the existing record, unchanged. The error is
  the conflict when the registry is below its maximum; when the registry is full the
  capacity check, which comes first, answers with the capacity error.
\<close>

theorem CreateTunnel_existing_id:
  "fmlookup (tunnels m) i \<noteq> None \<longrightarrow>
     fst (CreateTunnel tool t1 t2 i h p k md m)
       = Inl (if maxTunnels m \<le> len_tunnels m then MaxTunnelsReached (maxTunnels m)
              else TunnelExists i)
     \<and> snd (CreateTunnel tool t1 t2 i h p k md m) = m"
  by (simp add: CreateTunnel_def)

theorem CreateTunnel_existing_id_witness:
  "fmlookup (tunnels manager_a) ''a'' \<noteq> None
   \<and> CreateTunnel wg_ok 2 2 ''a'' ''x.example.com'' 9 ''key'' fmempty manager_a
       = (Inl (MaxTunnelsReached 1), manager_a)
   \<and> fmlookup (tunnels (manager_a\<lparr>maxTunnels := 2\<rparr>)) ''a'' \<noteq> None
   \<and> CreateTunnel wg_ok 2 2 ''a'' ''x.example.com'' 9 ''key'' fmempty (manager_a\<lparr>maxTunnels := 2\<rparr>)
       = (Inl (TunnelExists ''a''), manager_a\<lparr>maxTunnels := 2\<rparr>)"
proof -
  have a: "fmlookup (tunnels manager_a) ''a'' \<noteq> None"
    by (simp add: manager_a_tunnels)
  have b: "fmlookup (tunnels (manager_a\<lparr>maxTunnels := 2\<rparr>)) ''a'' \<noteq> None"
    by (simp add: manager_a_tunnels)
  have l: "len_tunnels (manager_a\<lparr>maxTunnels := 2\<rparr>) = 1"
    using manager_a_len by (simp add: len_tunnels_def)
  from a b l manager_a_len manager_a_maxTunnels
    CreateTunnel_existing_id [of manager_a "''a''" wg_ok 2 2 "''x.example.com''" 9 "''key''" fmempty]
    CreateTunnel_existing_id [of "manager_a\<lparr>maxTunnels := 2\<rparr>" "''a''" wg_ok 2 2 "''x.example.com''" 9 "''key''" fmempty]
  show ?thesis by (simp add: prod_eq_iff)
qed

theorem CreateTunnel_existing_id_counterexample:
  "fmlookup (tunnels manager_a) ''a'' \<noteq> None
   \<and> fst (CreateTunnel wg_ok 2 2 ''a'' ''a.example.com'' 8080 [] fmempty manager_a)
       \<noteq> Inl (TunnelExists ''a'')"
  by (simp add: CreateTunnel_def manager_a_tunnels manager_a_len manager_a_maxTunnels)

text \<open>
  Claim C6. For a call of \<^verbatim>\<open>CreateTunnel\<close> with a non-empty peer key that has passed the
  capacity and identifier checks, a failure of \<^verbatim>\<open>SetupPeer\<close> is returned as the failure of
  the call; and whenever the call returns that failure, the map of tunnels and the
  maximum are as before and no record with the identifier exists.
\<close>

theorem CreateTunnel_SetupPeer_failure:
  "(k \<noteq> [] \<and> len_tunnels m < maxTunnels m \<and> fmlookup (tunnels m) i = None
      \<and> fst (SetupPeer tool i k (wg m)) = Inl e
     \<longrightarrow> fst (CreateTunnel tool t1 t2 i h p k md m) = Inl (SetupPeerFailed e))
   \<and> (fst (CreateTunnel tool t1 t2 i h p k md m) = Inl (SetupPeerFailed e)
     \<longrightarrow> k \<noteq> [] \<and> fst (SetupPeer tool i k (wg m)) = Inl e
         \<and> tunnels (snd (CreateTunnel tool t1 t2 i h p k md m)) = tunnels m
         \<and> maxTunnels (snd (CreateTunnel tool t1 t2 i h p k md m)) = maxTunnels m
         \<and> fmlookup (tunnels (snd (CreateTunnel tool t1 t2 i h p k md m))) i = None)"
  by (auto simp: CreateTunnel_def Let_def split: prod.splits sum.splits if_splits)

theorem CreateTunnel_SetupPeer_failure_witness:
  "''peerkey'' \<noteq> [] \<and> len_tunnels (NewManager 1) < maxTunnels (NewManager 1)
   \<and> fmlookup (tunnels (NewManager 1)) ''a'' = None
   \<and> fst (SetupPeer wg_set_fails ''a'' ''peerkey'' (wg (NewManager 1))) = Inl AddPeerFailed
   \<and> fst (CreateTunnel wg_set_fails 1 1 ''a'' ''a.example.com'' 8080 ''peerkey'' fmempty (NewManager 1))
       = Inl (SetupPeerFailed AddPeerFailed)
   \<and> tunnels (snd (CreateTunnel wg_set_fails 1 1 ''a'' ''a.example.com'' 8080 ''peerkey'' fmempty (NewManager 1)))
       = tunnels (NewManager 1)
   \<and> fmlookup (tunnels (snd (CreateTunnel wg_set_fails 1 1 ''a'' ''a.example.com'' 8080 ''peerkey'' fmempty (NewManager 1)))) ''a''
       = None"
proof -
  have a: "len_tunnels (NewManager 1) < maxTunnels (NewManager 1)"
    by (simp add: NewManager_def len_tunnels_def fcard_fempty)
  have b: "fmlookup (tunnels (NewManager 1)) ''a'' = None"
    by (simp add: NewManager_def)
  have c: "fst (SetupPeer wg_set_fails ''a'' ''peerkey'' (wg (NewManager 1))) = Inl AddPeerFailed"
    by (simp add: NewManager_def SetupPeer_set_fails)
  have d: "''peerkey'' \<noteq> []" by simp
  from a b c d
    CreateTunnel_SetupPeer_failure [of "''peerkey''" "NewManager 1" "''a''" wg_set_fails AddPeerFailed
      1 1 "''a.example.com''" 8080 fmempty]
  show ?thesis by simp
qed


section \<open>Properties of the HTTP dispatcher\<close>

text \<open>
  Claim C9. For a request whose host has no entry in the routing table, the handler logs
  the miss, answers with status 503 (service unavailable) and does nothing else: no
  action of the handler connects to a backend.
\<close>

theorem handleHTTPRequest_unknown_host:
  "GetTunnelByHost router (Host req) = Inl err \<longrightarrow>
     handleHTTPRequest router req
       = [LogNoTunnel err (Host req), HTTPError ''Service Unavailable'' 503]
     \<and> \<not> list_ex connects_to_backend (handleHTTPRequest router req)"
  by (simp add: handleHTTPRequest_def StatusServiceUnavailable_def)

theorem handleHTTPRequest_unknown_host_witness:
  "GetTunnelByHost (NewRouter example_config) ''unknown.example.com''
     = Inl (NoTunnelForHostname ''unknown.example.com'')
   \<and> handleHTTPRequest (NewRouter example_config)
        \<lparr>Host = ''unknown.example.com'', Method = ''GET'', Path = ''/''\<rparr>
       = [LogNoTunnel (NoTunnelForHostname ''unknown.example.com'') ''unknown.example.com'',
          HTTPError ''Service Unavailable'' 503]
   \<and> \<not> list_ex connects_to_backend (handleHTTPRequest (NewRouter example_config)
        \<lparr>Host = ''unknown.example.com'', Method = ''GET'', Path = ''/''\<rparr>)"
proof -
  have m: "GetTunnelByHost (NewRouter example_config) ''unknown.example.com''
     = Inl (NoTunnelForHostname ''unknown.example.com'')"
    by (simp add: GetTunnelByHost_def NewRouter_def)
  with handleHTTPRequest_unknown_host [of "NewRouter example_config"
        "\<lparr>Host = ''unknown.example.com'', Method = ''GET'', Path = ''/''\<rparr>"
        "NoTunnelForHostname ''unknown.example.com''"]
  show ?thesis by simp
qed

end
